theory Spec2Isabelle
  imports Complex_Main
begin

section \<open>Data model (src/types/autism.ts)\<close>

text \<open>
  The TypeScript union \<^verbatim>\<open>'never' | 'rarely' | 'sometimes' | 'often' | 'always'\<close> is a
  datatype with five constructors; a value outside the union is excluded by the type, as
  it is for the TypeScript compiler. JavaScript numbers are modelled as \<open>int\<close> where the
  code only ever holds small integers (ages, mapped responses, their sums) and as \<open>real\<close>
  where it divides or adds decimal constants: the model is the exact-arithmetic reading
  of the code, without the rounding of IEEE doubles.
\<close>

datatype QuestionnaireResponse = never | rarely | sometimes | often | always

datatype Gender = M | F

datatype RiskLevel = Low | Medium | High

text \<open>One element of \<^verbatim>\<open>scoreBreakdown\<close>. Reading \<^verbatim>\<open>QUESTIONNAIRE_ITEMS[index]\<close> past the
  end of the array gives \<^verbatim>\<open>undefined\<close>, which is \<open>None\<close> here.\<close>

record ScoreEntry =
  question :: "string option"
  response :: QuestionnaireResponse
  score :: int

text \<open>\<^verbatim>\<open>PredictionResult\<close>. The fields the interface marks optional (\<^verbatim>\<open>riskPercentage\<close>,
  \<^verbatim>\<open>scoreBreakdown\<close>, \<^verbatim>\<open>timestamp\<close>) are always set by \<^verbatim>\<open>calculatePrediction\<close> in
  src/components/PredictionInterface.tsx, so they are plain fields.\<close>

record PredictionResult =
  prediction :: int
  confidence :: real
  riskLevel :: RiskLevel
  recommendation :: string
  riskPercentage :: real
  scoreBreakdown :: "ScoreEntry list"
  timestamp :: string

text \<open>\<^verbatim>\<open>SessionHistory\<close>; its fields carry the prefix \<open>session_\<close> because \<^verbatim>\<open>id\<close>,
  \<^verbatim>\<open>age\<close>, \<^verbatim>\<open>gender\<close> and \<^verbatim>\<open>timestamp\<close> are taken.\<close>

record SessionHistory =
  session_id :: string
  session_timestamp :: string
  session_age :: int
  session_gender :: Gender
  session_result :: PredictionResult
  session_totalScore :: int

record PredictionInput =
  age :: int
  gender :: Gender
  responses :: "QuestionnaireResponse list"

definition QUESTIONNAIRE_ITEMS :: "string list" where
  "QUESTIONNAIRE_ITEMS =
    [''Does your child make eye contact when you call their name?'',
     ''Does your child show interest in other children or prefer to play alone?'',
     ''Does your child use gestures like pointing or waving to communicate?'',
     ''Does your child understand and follow simple instructions?'',
     ''Does your child have difficulty with changes in routine or environment?'',
     ''Does your child show repetitive behaviors or intense interests in specific topics?'',
     ''Does your child have conversations or mainly speaks in single words?'',
     ''Does your child respond appropriately to emotions of others?'',
     ''Does your child have unusual sensory reactions (sounds, textures, lights)?'',
     ''Does your child engage in pretend or imaginative play?'']"

text \<open>The shape constraints of the specification's AssessmentInput: an age from 2 to 14
  and exactly ten responses (each response is one of the five categories by its type).\<close>

definition valid_input :: "PredictionInput \<Rightarrow> bool" where
  "valid_input formData =
     (2 \<le> age formData \<and> age formData \<le> 14 \<and> length (responses formData) = 10)"


section \<open>Response mappings (utils/dataProcessing)\<close>

text \<open>\<^verbatim>\<open>xs[k]\<close> for a JavaScript array and an integral number \<open>k\<close>: the element, or
  \<^verbatim>\<open>undefined\<close> (\<open>None\<close>) when \<open>k\<close> is not an index of the array.\<close>

definition array_get :: "'a list \<Rightarrow> int \<Rightarrow> 'a option" where
  "array_get xs k = (if 0 \<le> k \<and> k < int (length xs) then Some (xs ! nat k) else None)"

text \<open>\<^verbatim>\<open>const map = { never: 0, rarely: 1, sometimes: 2, often: 3, always: 4 };
  return map[response];\<close>\<close>

fun responseToNumber :: "QuestionnaireResponse \<Rightarrow> int" where
  "responseToNumber never = 0"
| "responseToNumber rarely = 1"
| "responseToNumber sometimes = 2"
| "responseToNumber often = 3"
| "responseToNumber always = 4"

text \<open>\<^verbatim>\<open>Math.round\<close> on a real number: the nearest integer, a tie going towards
  \<open>+\<infinity>\<close> (ECMAScript, Math.round).\<close>

definition Math_round :: "real \<Rightarrow> int" where
  "Math_round x = \<lfloor>x + 1 / 2\<rfloor>"

text \<open>\<^verbatim>\<open>const responses = ['never', 'rarely', 'sometimes', 'often', 'always'];
  return responses[Math.max(0, Math.min(4, Math.round(num)))];\<close>\<close>

definition numberToResponse :: "real \<Rightarrow> QuestionnaireResponse option" where
  "numberToResponse num =
     array_get [never, rarely, sometimes, often, always] (max 0 (min 4 (Math_round num)))"


section \<open>The scoring function (calculatePrediction, src/components/PredictionInterface.tsx)\<close>

text \<open>The local variables of \<^verbatim>\<open>calculatePrediction\<close>, in the order of the source. The
  component reads its input from the state \<^verbatim>\<open>formData\<close>, which is the argument here.\<close>

text \<open>\<^verbatim>\<open>formData.responses.reduce((sum, response) => sum + responseToNumber(response), 0)\<close>\<close>

definition totalScore :: "PredictionInput \<Rightarrow> int" where
  "totalScore formData =
     foldl (\<lambda>sum response. sum + responseToNumber response) 0 (responses formData)"

text \<open>\<^verbatim>\<open>let riskScore = 0;
  if (formData.age <= 3) riskScore += 0.05; else if (formData.age >= 10) riskScore += 0.03;
  if (formData.gender === 'M') riskScore += 0.05;\<close>
  The value of \<^verbatim>\<open>riskScore\<close> after the age and gender adjustments.\<close>

definition demographicScore :: "PredictionInput \<Rightarrow> real" where
  "demographicScore formData =
     (let riskScore = 0;
          riskScore = (if age formData \<le> 3 then riskScore + 0.05
                       else if age formData \<ge> 10 then riskScore + 0.03
                       else riskScore);
          riskScore = (if gender formData = M then riskScore + 0.05 else riskScore)
      in riskScore)"

text \<open>\<^verbatim>\<open>const normalizedScore = totalScore / 40;\<close>\<close>

definition normalizedScore :: "PredictionInput \<Rightarrow> real" where
  "normalizedScore formData = real_of_int (totalScore formData) / 40"

text \<open>\<^verbatim>\<open>riskScore = normalizedScore * 0.85 + (riskScore * 0.15);\<close>\<close>

definition weightedScore :: "PredictionInput \<Rightarrow> real" where
  "weightedScore formData = normalizedScore formData * 0.85 + demographicScore formData * 0.15"

text \<open>\<^verbatim>\<open>formData.responses.filter(r => r === 'always' || r === 'often').length\<close>\<close>

definition highRiskResponses :: "PredictionInput \<Rightarrow> nat" where
  "highRiskResponses formData =
     length (filter (\<lambda>r. r = always \<or> r = often) (responses formData))"

text \<open>\<^verbatim>\<open>formData.responses.filter(r => r === 'never' || r === 'rarely').length\<close>\<close>

definition lowEngagementResponses :: "PredictionInput \<Rightarrow> nat" where
  "lowEngagementResponses formData =
     length (filter (\<lambda>r. r = never \<or> r = rarely) (responses formData))"

text \<open>\<^verbatim>\<open>if (highRiskResponses >= 6) riskScore += 0.1;
  if (lowEngagementResponses >= 7) riskScore += 0.05;\<close>
  The value of \<^verbatim>\<open>riskScore\<close> just before it is clamped.\<close>

definition patternScore :: "PredictionInput \<Rightarrow> real" where
  "patternScore formData =
     (let riskScore = weightedScore formData;
          riskScore = (if highRiskResponses formData \<ge> 6 then riskScore + 0.1 else riskScore);
          riskScore = (if lowEngagementResponses formData \<ge> 7 then riskScore + 0.05 else riskScore)
      in riskScore)"

text \<open>\<^verbatim>\<open>riskScore = Math.max(0, Math.min(1, riskScore));\<close>\<close>

definition riskScore :: "PredictionInput \<Rightarrow> real" where
  "riskScore formData = max 0 (min 1 (patternScore formData))"

text \<open>\<^verbatim>\<open>formData.responses.map((response, index) => ({
    question: QUESTIONNAIRE_ITEMS[index], response, score: responseToNumber(response) }))\<close>\<close>

definition buildScoreBreakdown :: "QuestionnaireResponse list \<Rightarrow> ScoreEntry list" where
  "buildScoreBreakdown rs =
     map (\<lambda>(index, response).
            \<lparr>question = array_get QUESTIONNAIRE_ITEMS (int index),
             response = response,
             score = responseToNumber response\<rparr>)
         (List.enumerate 0 rs)"

text \<open>The rest of \<^verbatim>\<open>calculatePrediction\<close>, from \<^verbatim>\<open>const riskPercentage = riskScore * 100\<close> to
  the returned object. The function reads the clock for the \<^verbatim>\<open>timestamp\<close> field
  (\<^verbatim>\<open>new Date().toISOString()\<close>); the clock's reading is the argument \<open>now\<close>.\<close>

definition calculatePrediction :: "PredictionInput \<Rightarrow> string \<Rightarrow> PredictionResult" where
  "calculatePrediction formData now =
     (let riskPercentage = riskScore formData * 100;
          prediction = (if riskPercentage \<ge> 50 then 1 else 0);
          (riskLevel, confidence) =
             (if riskPercentage < 35 then (Low, (35 - riskPercentage) / 35)
              else if riskPercentage < 65 then (Medium, 0.7)
              else (High, (riskPercentage - 65) / 35));
          confidence = min 0.95 (max 0.6 confidence);
          scoreBreakdown = buildScoreBreakdown (responses formData);
          recommendation =
             (if riskLevel = High then
                ''We strongly recommend consulting with a pediatric developmental specialist or child psychologist for a comprehensive evaluation. Early screening and intervention can significantly improve outcomes.''
              else if riskLevel = Medium then
                ''While the assessment shows moderate indicators, we recommend discussing these observations with your pediatrician. Continue monitoring your child's development closely.''
              else
                ''The assessment suggests typical development patterns. Continue regular developmental check-ups with your pediatrician and implement the supportive strategies provided below.'')
      in \<lparr>prediction = prediction,
          confidence = confidence,
          riskLevel = riskLevel,
          recommendation = recommendation,
          riskPercentage = riskPercentage,
          scoreBreakdown = scoreBreakdown,
          timestamp = now\<rparr>)"

text \<open>The completion of a call. \<^verbatim>\<open>calculatePrediction\<close> has no \<^verbatim>\<open>throw\<close> and no
  validation branch, and everything it calls (\<^verbatim>\<open>reduce\<close>, \<^verbatim>\<open>filter\<close>, \<^verbatim>\<open>map\<close>, array
  indexing, arithmetic, \<^verbatim>\<open>Math.min\<close>, \<^verbatim>\<open>Math.max\<close>) returns normally on every array
  and number, so every call completes with its result.\<close>

datatype error = InvalidInput

definition calculatePrediction_completion ::
    "PredictionInput \<Rightarrow> string \<Rightarrow> error + PredictionResult" where
  "calculatePrediction_completion formData now = Inr (calculatePrediction formData now)"


section \<open>Session history (utils/sessionStorage)\<close>

text \<open>
  The browser's \<^verbatim>\<open>localStorage\<close>, as far as this module uses it: the value stored under
  \<^verbatim>\<open>SESSION_HISTORY_KEY\<close> (absent, or the list that was serialised there), and whether
  the browser accepts a write (\<^verbatim>\<open>setItem\<close> throws when the quota is exceeded or
  storage is disabled). \<^verbatim>\<open>JSON.stringify\<close> and \<^verbatim>\<open>JSON.parse\<close> are taken to be inverse
  on the plain data of a session list, so the stored value is the list itself.
\<close>

record localStorage =
  history_item :: "SessionHistory list option"
  accepts_write :: bool

datatype storage_error = QuotaExceededError

text \<open>\<^verbatim>\<open>localStorage.setItem(SESSION_HISTORY_KEY, JSON.stringify(v))\<close>\<close>

definition setItem :: "SessionHistory list \<Rightarrow> localStorage \<Rightarrow> storage_error + localStorage" where
  "setItem v ls =
     (if accepts_write ls then Inr (ls\<lparr>history_item := Some v\<rparr>) else Inl QuotaExceededError)"

text \<open>\<^verbatim>\<open>const stored = localStorage.getItem(SESSION_HISTORY_KEY);
  return stored ? JSON.parse(stored) : [];\<close>\<close>

definition getSessionHistory :: "localStorage \<Rightarrow> SessionHistory list" where
  "getSessionHistory ls = (case history_item ls of Some stored \<Rightarrow> stored | None \<Rightarrow> [])"

text \<open>\<^verbatim>\<open>const history = getSessionHistory(); history.unshift(session);
  const limitedHistory = history.slice(0, 10);
  localStorage.setItem(SESSION_HISTORY_KEY, JSON.stringify(limitedHistory));\<close>
  inside \<^verbatim>\<open>try\<close>; the \<^verbatim>\<open>catch\<close> logs the error and leaves the storage as it was.\<close>

definition saveSession :: "SessionHistory \<Rightarrow> localStorage \<Rightarrow> localStorage" where
  "saveSession session ls =
     (let history = getSessionHistory ls;
          history = session # history;
          limitedHistory = take 10 history
      in case setItem limitedHistory ls of
           Inr ls' \<Rightarrow> ls'
         | Inl e \<Rightarrow> ls)"


section \<open>The earlier scoring function (calculatePrediction, src/unnamed/part_003)\<close>

text \<open>
  The repository holds a second, earlier copy of the component, without score breakdown,
  session history or timestamp. Its \<^verbatim>\<open>calculatePrediction\<close> follows the same plan with
  other constants: adjustments 0.1, 0.05 and 0.1, a weight of 0.8 added to the
  demographic score, bonuses 0.2 and 0.15 both from 6 responses, level bounds 0.3 and 0.7
  on \<^verbatim>\<open>riskScore\<close>, prediction from 0.6, and an unclamped confidence. The specification's
  algorithm (weights 0.85 and 0.15, thresholds 6 and 7, bounds 35 and 65, clamped
  confidence) is the one of src/components/PredictionInterface.tsx above, and the claims
  are settled on that one; this copy is modelled to record where it differs.
\<close>

text \<open>\<^verbatim>\<open>riskScore\<close> at the end of the earlier function, after the clamp.\<close>

definition riskScore_earlier :: "PredictionInput \<Rightarrow> real" where
  "riskScore_earlier formData =
     (let riskScore = 0;
          riskScore = (if age formData \<le> 3 then riskScore + 0.1
                       else if age formData \<ge> 10 then riskScore + 0.05
                       else riskScore);
          riskScore = (if gender formData = M then riskScore + 0.1 else riskScore);
          normalizedScore = real_of_int (totalScore formData) / 40;
          riskScore = riskScore + normalizedScore * 0.8;
          riskScore = (if highRiskResponses formData \<ge> 6 then riskScore + 0.2 else riskScore);
          riskScore = (if lowEngagementResponses formData \<ge> 6 then riskScore + 0.15
                       else riskScore)
      in max 0 (min 1 riskScore))"

text \<open>\<^verbatim>\<open>const prediction = riskScore >= 0.6 ? 1 : 0;
  const confidence = riskScore >= 0.6 ? riskScore : 1 - riskScore;
  if (riskScore < 0.3) riskLevel = 'Low'; else if (riskScore < 0.7) riskLevel = 'Medium';
  else riskLevel = 'High';\<close>
  The returned object has the four fields prediction, confidence, riskLevel and
  recommendation; they are the components of the tuple, in this order.\<close>

definition calculatePrediction_earlier ::
    "PredictionInput \<Rightarrow> int \<times> real \<times> RiskLevel \<times> string" where
  "calculatePrediction_earlier formData =
     (let riskScore = riskScore_earlier formData;
          prediction = (if riskScore \<ge> 0.6 then 1 else 0);
          confidence = (if riskScore \<ge> 0.6 then riskScore else 1 - riskScore);
          riskLevel = (if riskScore < 0.3 then Low
                       else if riskScore < 0.7 then Medium else High);
          recommendation =
             (if prediction = (1::int) then
                ''We recommend consulting with a pediatric developmental specialist or child psychologist for a comprehensive evaluation. Early screening and intervention can significantly improve outcomes.''
              else if riskLevel = Medium then
                ''While the current assessment suggests lower risk, continue monitoring your child's development and consult with your pediatrician if you have concerns.''
              else
                ''The assessment suggests typical development patterns. Continue regular developmental check-ups with your pediatrician.'')
      in (prediction, confidence, riskLevel, recommendation))"


section \<open>Properties\<close>

subsection \<open>The total score\<close>

lemma foldl_responseToNumber:
  "foldl (\<lambda>sum response. sum + responseToNumber response) a rs
     = a + sum_list (map responseToNumber rs)"
  by (induction rs arbitrary: a) simp_all

lemma responseToNumber_range: "0 \<le> responseToNumber r \<and> responseToNumber r \<le> 4"
  by (cases r) simp_all

lemma sum_responseToNumber_bounds:
  "0 \<le> sum_list (map responseToNumber rs)
   \<and> sum_list (map responseToNumber rs) \<le> 4 * int (length rs)"
proof (induction rs)
  case Nil
  show ?case by simp
next
  case (Cons r rs)
  with responseToNumber_range [of r] show ?case by simp
qed

text \<open>
  Claim C4. For every valid input, \<^verbatim>\<open>totalScore\<close> is the sum of the ten responses mapped
  by never=0, rarely=1, sometimes=2, often=3, always=4, and it lies between 0 and 40.
\<close>

theorem totalScore_sum_and_range:
  assumes "valid_input formData"
  shows "totalScore formData = sum_list (map responseToNumber (responses formData))
         \<and> map responseToNumber [never, rarely, sometimes, often, always] = [0, 1, 2, 3, 4]
         \<and> 0 \<le> totalScore formData \<and> totalScore formData \<le> 40"
proof -
  have len: "length (responses formData) = 10"
    using assms by (simp add: valid_input_def)
  have eq: "totalScore formData = sum_list (map responseToNumber (responses formData))"
    by (simp add: totalScore_def foldl_responseToNumber)
  from sum_responseToNumber_bounds [of "responses formData"] len eq
  show ?thesis by simp
qed

theorem totalScore_sum_and_range_witness:
  "valid_input \<lparr>age = 5, gender = F,
       responses = [never, rarely, sometimes, often, always, always, often, sometimes, rarely, never]\<rparr>
   \<and> totalScore \<lparr>age = 5, gender = F,
       responses = [never, rarely, sometimes, often, always, always, often, sometimes, rarely, never]\<rparr>
     = 20"
  using totalScore_sum_and_range
    [of "\<lparr>age = 5, gender = F,
       responses = [never, rarely, sometimes, often, always, always, often, sometimes, rarely, never]\<rparr>"]
  by (simp add: valid_input_def)


subsection \<open>The fields of the result\<close>

lemma calc_riskPercentage:
  "riskPercentage (calculatePrediction fd now) = riskScore fd * 100"
  by (simp add: calculatePrediction_def Let_def split: prod.splits)

lemma calc_riskLevel:
  "riskLevel (calculatePrediction fd now)
     = (if riskScore fd * 100 < 35 then Low
        else if riskScore fd * 100 < 65 then Medium else High)"
  by (simp add: calculatePrediction_def Let_def split: prod.splits)

lemma calc_confidence:
  "confidence (calculatePrediction fd now)
     = min 0.95 (max 0.6
         (if riskScore fd * 100 < 35 then (35 - riskScore fd * 100) / 35
          else if riskScore fd * 100 < 65 then 0.7
          else (riskScore fd * 100 - 65) / 35))"
  by (simp add: calculatePrediction_def Let_def split: prod.splits)

lemma calc_prediction:
  "prediction (calculatePrediction fd now) = (if riskScore fd * 100 \<ge> 50 then 1 else 0)"
  by (simp add: calculatePrediction_def Let_def split: prod.splits)

lemma calc_scoreBreakdown:
  "scoreBreakdown (calculatePrediction fd now) = buildScoreBreakdown (responses fd)"
  by (simp add: calculatePrediction_def Let_def split: prod.splits)

lemma calc_timestamp: "timestamp (calculatePrediction fd now) = now"
  by (simp add: calculatePrediction_def Let_def split: prod.splits)

lemma riskScore_bounds: "0 \<le> riskScore fd \<and> riskScore fd \<le> 1"
  by (simp add: riskScore_def)

text \<open>The bounds of the percentage need no assumption on the input: they come from the
  clamp alone.\<close>

lemma riskPercentage_bounds:
  "0 \<le> riskPercentage (calculatePrediction fd now)
   \<and> riskPercentage (calculatePrediction fd now) \<le> 100"
  using riskScore_bounds [of fd] by (simp add: calc_riskPercentage)


subsection \<open>Evaluating the score on concrete inputs\<close>

text \<open>Six \<^verbatim>\<open>often\<close> and four \<^verbatim>\<open>never\<close> for a boy of 8: total 18, weighted score
  \<open>0.45 \<times> 0.85 + 0.05 \<times> 0.15 = 0.39\<close>, one bonus of \<open>0.1\<close>.\<close>

lemma patternScore_six_often:
  "patternScore \<lparr>age = 8, gender = M,
      responses = [often, often, often, often, often, often, never, never, never, never]\<rparr>
     = 0.49"
  by (simp add: patternScore_def weightedScore_def normalizedScore_def totalScore_def
      demographicScore_def highRiskResponses_def lowEngagementResponses_def Let_def)

lemma riskScore_six_often:
  "riskScore \<lparr>age = 8, gender = M,
      responses = [often, often, often, often, often, often, never, never, never, never]\<rparr>
     = 0.49"
  by (simp add: riskScore_def patternScore_six_often)

text \<open>Ten \<^verbatim>\<open>always\<close> for a boy of 5: \<open>0.85 + 0.0075 + 0.1\<close>.\<close>

lemma riskScore_all_always:
  "riskScore \<lparr>age = 5, gender = M,
      responses = [always, always, always, always, always, always, always, always, always, always]\<rparr>
     = 0.9575"
  by (simp add: riskScore_def patternScore_def weightedScore_def normalizedScore_def
      totalScore_def demographicScore_def highRiskResponses_def lowEngagementResponses_def
      Let_def)

text \<open>Ten \<^verbatim>\<open>never\<close> for a girl of 5: no demographic adjustment, and the bonus of
  \<open>0.05\<close> for seven or more low responses.\<close>

lemma riskScore_all_never:
  "riskScore \<lparr>age = 5, gender = F,
      responses = [never, never, never, never, never, never, never, never, never, never]\<rparr>
     = 0.05"
  by (simp add: riskScore_def patternScore_def weightedScore_def normalizedScore_def
      totalScore_def demographicScore_def highRiskResponses_def lowEngagementResponses_def
      Let_def)


subsection \<open>Risk percentage and risk level\<close>

text \<open>
  Claim C1. For every valid input (age from 2 to 14, ten responses) the result's
  \<^verbatim>\<open>riskPercentage\<close> lies between 0 and 100, and its \<^verbatim>\<open>riskLevel\<close> is Low exactly when
  the percentage is below 35, Medium exactly when it is at least 35 and below 65, and
  High exactly when it is at least 65.
\<close>

theorem riskPercentage_range_and_riskLevel:
  assumes "valid_input formData"
  shows "0 \<le> riskPercentage (calculatePrediction formData now)
    \<and> riskPercentage (calculatePrediction formData now) \<le> 100
    \<and> (riskLevel (calculatePrediction formData now) = Low)
         = (riskPercentage (calculatePrediction formData now) < 35)
    \<and> (riskLevel (calculatePrediction formData now) = Medium)
         = (35 \<le> riskPercentage (calculatePrediction formData now)
            \<and> riskPercentage (calculatePrediction formData now) < 65)
    \<and> (riskLevel (calculatePrediction formData now) = High)
         = (65 \<le> riskPercentage (calculatePrediction formData now))"
proof -
  have level: "riskLevel (calculatePrediction formData now)
      = (if riskPercentage (calculatePrediction formData now) < 35 then Low
         else if riskPercentage (calculatePrediction formData now) < 65 then Medium
         else High)"
    by (simp add: calc_riskPercentage calc_riskLevel)
  from riskPercentage_bounds [of formData now] show ?thesis
    unfolding level by auto
qed

theorem riskPercentage_range_and_riskLevel_witness:
  "valid_input \<lparr>age = 8, gender = M,
      responses = [often, often, often, often, often, often, never, never, never, never]\<rparr>
   \<and> riskPercentage (calculatePrediction \<lparr>age = 8, gender = M,
      responses = [often, often, often, often, often, often, never, never, never, never]\<rparr> ''2025-11-20T09:40:24.000Z'') = 49
   \<and> riskLevel (calculatePrediction \<lparr>age = 8, gender = M,
      responses = [often, often, often, often, often, often, never, never, never, never]\<rparr> ''2025-11-20T09:40:24.000Z'') = Medium"
  using riskPercentage_range_and_riskLevel [of "\<lparr>age = 8, gender = M,
      responses = [often, often, often, often, often, often, never, never, never, never]\<rparr>" "''2025-11-20T09:40:24.000Z''"]
  by (simp add: valid_input_def calc_riskPercentage riskScore_six_often)


subsection \<open>Confidence\<close>

text \<open>
  Claim C2. For every valid input the \<^verbatim>\<open>confidence\<close> of the result lies in the closed
  interval from 0.6 to 0.95, whichever risk level is produced.
\<close>

theorem confidence_range:
  assumes "valid_input formData"
  shows "0.6 \<le> confidence (calculatePrediction formData now)
         \<and> confidence (calculatePrediction formData now) \<le> 0.95"
  unfolding calc_confidence by (simp add: min_def max_def)

theorem confidence_range_witness:
  "valid_input \<lparr>age = 5, gender = F,
      responses = [never, never, never, never, never, never, never, never, never, never]\<rparr>
   \<and> riskLevel (calculatePrediction \<lparr>age = 5, gender = F,
      responses = [never, never, never, never, never, never, never, never, never, never]\<rparr> ''2025-11-20T09:40:24.000Z'') = Low
   \<and> confidence (calculatePrediction \<lparr>age = 5, gender = F,
      responses = [never, never, never, never, never, never, never, never, never, never]\<rparr> ''2025-11-20T09:40:24.000Z'') = 6 / 7"
  using confidence_range [of "\<lparr>age = 5, gender = F,
      responses = [never, never, never, never, never, never, never, never, never, never]\<rparr>" "''2025-11-20T09:40:24.000Z''"]
  by (simp add: valid_input_def calc_confidence calc_riskLevel riskScore_all_never)


subsection \<open>The binary prediction\<close>

text \<open>
  Claim C10. For every valid input the \<^verbatim>\<open>prediction\<close> field is 1 exactly when
  \<^verbatim>\<open>riskPercentage\<close> is at least 50 and 0 otherwise; hence a Low risk level comes with
  prediction 0 and a High risk level with prediction 1.
\<close>

theorem prediction_threshold:
  assumes "valid_input formData"
  shows "(prediction (calculatePrediction formData now) = 1)
           = (riskPercentage (calculatePrediction formData now) \<ge> 50)
    \<and> (prediction (calculatePrediction formData now) = 0)
           = (riskPercentage (calculatePrediction formData now) < 50)
    \<and> (riskLevel (calculatePrediction formData now) = Low
           \<longrightarrow> prediction (calculatePrediction formData now) = 0)
    \<and> (riskLevel (calculatePrediction formData now) = High
           \<longrightarrow> prediction (calculatePrediction formData now) = 1)"
  by (auto simp add: calc_riskPercentage calc_riskLevel calc_prediction split: if_splits)

theorem prediction_threshold_witness:
  "valid_input \<lparr>age = 5, gender = M,
      responses = [always, always, always, always, always, always, always, always, always, always]\<rparr>
   \<and> riskLevel (calculatePrediction \<lparr>age = 5, gender = M,
      responses = [always, always, always, always, always, always, always, always, always, always]\<rparr> ''2025-11-20T09:40:24.000Z'') = High
   \<and> prediction (calculatePrediction \<lparr>age = 5, gender = M,
      responses = [always, always, always, always, always, always, always, always, always, always]\<rparr> ''2025-11-20T09:40:24.000Z'') = 1"
  using prediction_threshold [of "\<lparr>age = 5, gender = M,
      responses = [always, always, always, always, always, always, always, always, always, always]\<rparr>" "''2025-11-20T09:40:24.000Z''"]
  by (simp add: valid_input_def calc_riskLevel riskScore_all_always)


subsection \<open>Dependence on the clock\<close>

text \<open>
  Claim C3, as stated: two calls with the same input give results equal in all fields.
  The returned object carries \<^verbatim>\<open>timestamp: new Date().toISOString()\<close>, so two calls made
  at different readings of the clock differ in that field.
\<close>

theorem calculatePrediction_timestamp_differs:
  "calculatePrediction \<lparr>age = 8, gender = M,
      responses = [often, often, often, often, often, often, never, never, never, never]\<rparr> ''2025-11-20T09:40:24.000Z''
   \<noteq> calculatePrediction \<lparr>age = 8, gender = M,
      responses = [often, often, often, often, often, often, never, never, never, never]\<rparr> ''2025-11-20T09:40:25.000Z''"
proof
  assume "calculatePrediction \<lparr>age = 8, gender = M,
      responses = [often, often, often, often, often, often, never, never, never, never]\<rparr> ''2025-11-20T09:40:24.000Z''
   = calculatePrediction \<lparr>age = 8, gender = M,
      responses = [often, often, often, often, often, often, never, never, never, never]\<rparr> ''2025-11-20T09:40:25.000Z''"
  then have "timestamp (calculatePrediction \<lparr>age = 8, gender = M,
      responses = [often, often, often, often, often, often, never, never, never, never]\<rparr> ''2025-11-20T09:40:24.000Z'')
   = timestamp (calculatePrediction \<lparr>age = 8, gender = M,
      responses = [often, often, often, often, often, often, never, never, never, never]\<rparr> ''2025-11-20T09:40:25.000Z'')"
    by (rule arg_cong)
  then show False by (simp add: calc_timestamp)
qed

text \<open>
  Claim C3, amended. The result is a function of the input and of the clock's reading at
  the call: its \<^verbatim>\<open>timestamp\<close> is that reading, and two calls with the same input agree
  on every other field (prediction, confidence, riskLevel, recommendation,
  riskPercentage, scoreBreakdown), whatever the clock reads.
\<close>

theorem calculatePrediction_deterministic_up_to_timestamp:
  "timestamp (calculatePrediction formData now) = now
   \<and> calculatePrediction formData now
       = (calculatePrediction formData now')\<lparr>timestamp := now\<rparr>
   \<and> prediction (calculatePrediction formData now)
       = prediction (calculatePrediction formData now')
   \<and> confidence (calculatePrediction formData now)
       = confidence (calculatePrediction formData now')
   \<and> riskLevel (calculatePrediction formData now)
       = riskLevel (calculatePrediction formData now')
   \<and> recommendation (calculatePrediction formData now)
       = recommendation (calculatePrediction formData now')
   \<and> riskPercentage (calculatePrediction formData now)
       = riskPercentage (calculatePrediction formData now')
   \<and> scoreBreakdown (calculatePrediction formData now)
       = scoreBreakdown (calculatePrediction formData now')"
proof -
  have upd: "calculatePrediction formData now
       = (calculatePrediction formData now')\<lparr>timestamp := now\<rparr>"
    by (simp add: calculatePrediction_def Let_def split: prod.splits)
  have rest: "prediction (calculatePrediction formData now)
         = prediction (calculatePrediction formData now')
     \<and> confidence (calculatePrediction formData now)
         = confidence (calculatePrediction formData now')
     \<and> riskLevel (calculatePrediction formData now)
         = riskLevel (calculatePrediction formData now')
     \<and> recommendation (calculatePrediction formData now)
         = recommendation (calculatePrediction formData now')
     \<and> riskPercentage (calculatePrediction formData now)
         = riskPercentage (calculatePrediction formData now')
     \<and> scoreBreakdown (calculatePrediction formData now)
         = scoreBreakdown (calculatePrediction formData now')"
    by (simp add: calculatePrediction_def Let_def split: prod.splits)
  have "timestamp (calculatePrediction formData now) = now"
    by (rule calc_timestamp)
  with upd rest show ?thesis by blast
qed


subsection \<open>No validation of the input\<close>

lemma length_buildScoreBreakdown: "length (buildScoreBreakdown rs) = length rs"
  by (simp add: buildScoreBreakdown_def)

text \<open>
  Claim C5, as stated: the function fails with InvalidInput on every input whose
  responses are not exactly ten or whose age is outside 2 to 14. The function checks
  neither; given an age of 20 and three responses it returns a result.
\<close>

theorem calculatePrediction_invalid_input_returns:
  "\<not> valid_input \<lparr>age = 20, gender = F, responses = [always, never, often]\<rparr>
   \<and> calculatePrediction_completion \<lparr>age = 20, gender = F, responses = [always, never, often]\<rparr> ''2025-11-20T09:40:24.000Z''
       \<noteq> Inl InvalidInput
   \<and> calculatePrediction_completion \<lparr>age = 20, gender = F, responses = [always, never, often]\<rparr> ''2025-11-20T09:40:24.000Z''
       = Inr (calculatePrediction \<lparr>age = 20, gender = F, responses = [always, never, often]\<rparr> ''2025-11-20T09:40:24.000Z'')"
  by (simp add: valid_input_def calculatePrediction_completion_def)

text \<open>
  Claim C5, amended. The function validates nothing and never fails with InvalidInput:
  for every input, also one whose age is outside 2 to 14 or whose responses are not
  exactly ten, the call returns a result, whose percentage is still between 0 and 100
  and whose breakdown has one entry for each response given. In particular no error is
  raised for a valid input.
\<close>

theorem calculatePrediction_never_fails:
  "calculatePrediction_completion formData now \<noteq> Inl InvalidInput
   \<and> calculatePrediction_completion formData now = Inr (calculatePrediction formData now)
   \<and> 0 \<le> riskPercentage (calculatePrediction formData now)
   \<and> riskPercentage (calculatePrediction formData now) \<le> 100
   \<and> length (scoreBreakdown (calculatePrediction formData now))
       = length (responses formData)"
  using riskPercentage_bounds [of formData now]
  by (simp add: calculatePrediction_completion_def calc_scoreBreakdown
      length_buildScoreBreakdown)


subsection \<open>The response-pattern bonuses\<close>

lemma filter_disjoint_length:
  "(\<And>x. \<not> (P x \<and> Q x)) \<Longrightarrow> length (filter P xs) + length (filter Q xs) \<le> length xs"
  by (induction xs) auto

lemma demographicScore_range: "0 \<le> demographicScore fd \<and> demographicScore fd \<le> 0.1"
  by (simp add: demographicScore_def Let_def)

lemma normalizedScore_range:
  assumes "length (responses fd) = 10"
  shows "0 \<le> normalizedScore fd \<and> normalizedScore fd \<le> 1"
proof -
  have "totalScore fd = sum_list (map responseToNumber (responses fd))"
    by (simp add: totalScore_def foldl_responseToNumber)
  with sum_responseToNumber_bounds [of "responses fd"] assms
  have "0 \<le> totalScore fd \<and> totalScore fd \<le> 40" by simp
  then show ?thesis by (simp add: normalizedScore_def)
qed

lemma weightedScore_range:
  assumes "length (responses fd) = 10"
  shows "0 \<le> weightedScore fd \<and> weightedScore fd \<le> 0.865"
  using normalizedScore_range [OF assms] demographicScore_range [of fd]
  by (simp add: weightedScore_def)

text \<open>
  Claim C6. For every valid input the function adds the bonus 0.1 to \<^verbatim>\<open>riskScore\<close> once
  when at least 6 of the responses are \<^verbatim>\<open>often\<close> or \<^verbatim>\<open>always\<close>, adds the smaller bonus
  0.05 once when at least 7 of the responses are \<^verbatim>\<open>never\<close> or \<^verbatim>\<open>rarely\<close>, and adds
  neither when its threshold is not met. The two counts are the numbers of such responses
  in the input; with ten responses the two thresholds cannot both be met, and the sum
  stays within 0 and 1, so the clamp that follows leaves it as it is. The returned
  percentage is therefore 100 times the sum of the weighted total (0.85 of the total
  over 40), the weighted demographic adjustment (0.15 of the age and gender terms) and
  the bonuses, each counted once.
\<close>

theorem pattern_bonus_applied_once:
  assumes "valid_input formData"
  shows "highRiskResponses formData = length (filter (\<lambda>r. r = often \<or> r = always) (responses formData))
     \<and> lowEngagementResponses formData = length (filter (\<lambda>r. r = never \<or> r = rarely) (responses formData))
     \<and> patternScore formData = weightedScore formData
            + (if 6 \<le> length (filter (\<lambda>r. r = often \<or> r = always) (responses formData))
               then 0.1 else 0)
            + (if 7 \<le> length (filter (\<lambda>r. r = never \<or> r = rarely) (responses formData))
               then 0.05 else 0)
     \<and> \<not> (6 \<le> length (filter (\<lambda>r. r = often \<or> r = always) (responses formData))
           \<and> 7 \<le> length (filter (\<lambda>r. r = never \<or> r = rarely) (responses formData)))
     \<and> riskScore formData = patternScore formData
     \<and> riskPercentage (calculatePrediction formData now)
         = (real_of_int (sum_list (map responseToNumber (responses formData))) / 40 * 0.85
            + ((if age formData \<le> 3 then 0.05 else if age formData \<ge> 10 then 0.03 else 0)
               + (if gender formData = M then 0.05 else 0)) * 0.15
            + (if 6 \<le> length (filter (\<lambda>r. r = often \<or> r = always) (responses formData))
               then 0.1 else 0)
            + (if 7 \<le> length (filter (\<lambda>r. r = never \<or> r = rarely) (responses formData))
               then 0.05 else 0)) * 100"
proof -
  have len: "length (responses formData) = 10"
    using assms by (simp add: valid_input_def)
  have hi: "highRiskResponses formData = length (filter (\<lambda>r. r = often \<or> r = always) (responses formData))"
    by (simp add: highRiskResponses_def disj_commute)
  have lo: "lowEngagementResponses formData = length (filter (\<lambda>r. r = never \<or> r = rarely) (responses formData))"
    by (simp add: lowEngagementResponses_def)
  have "length (filter (\<lambda>r. r = often \<or> r = always) (responses formData))
        + length (filter (\<lambda>r. r = never \<or> r = rarely) (responses formData))
        \<le> length (responses formData)"
    by (rule filter_disjoint_length) auto
  with len have excl: "length (filter (\<lambda>r. r = often \<or> r = always) (responses formData))
        + length (filter (\<lambda>r. r = never \<or> r = rarely) (responses formData)) \<le> 10"
    by simp
  have closed: "patternScore formData = weightedScore formData
            + (if 6 \<le> length (filter (\<lambda>r. r = often \<or> r = always) (responses formData))
               then 0.1 else 0)
            + (if 7 \<le> length (filter (\<lambda>r. r = never \<or> r = rarely) (responses formData))
               then 0.05 else 0)"
    unfolding hi [symmetric] lo [symmetric] by (simp add: patternScore_def Let_def)
  from weightedScore_range [OF len] excl closed
  have "0 \<le> patternScore formData \<and> patternScore formData \<le> 1"
    by (auto split: if_splits)
  then have clamp: "riskScore formData = patternScore formData"
    by (simp add: riskScore_def)
  have base: "weightedScore formData
      = real_of_int (sum_list (map responseToNumber (responses formData))) / 40 * 0.85
        + ((if age formData \<le> 3 then 0.05 else if age formData \<ge> 10 then 0.03 else 0)
           + (if gender formData = M then 0.05 else 0)) * 0.15"
    by (simp add: weightedScore_def normalizedScore_def totalScore_def
        foldl_responseToNumber demographicScore_def Let_def)
  have pct: "riskPercentage (calculatePrediction formData now) = patternScore formData * 100"
    using clamp by (simp add: calc_riskPercentage)
  have "riskPercentage (calculatePrediction formData now)
         = (real_of_int (sum_list (map responseToNumber (responses formData))) / 40 * 0.85
            + ((if age formData \<le> 3 then 0.05 else if age formData \<ge> 10 then 0.03 else 0)
               + (if gender formData = M then 0.05 else 0)) * 0.15
            + (if 6 \<le> length (filter (\<lambda>r. r = often \<or> r = always) (responses formData))
               then 0.1 else 0)
            + (if 7 \<le> length (filter (\<lambda>r. r = never \<or> r = rarely) (responses formData))
               then 0.05 else 0)) * 100"
    unfolding pct closed base by (rule refl)
  with hi lo closed excl clamp show ?thesis by simp
qed

text \<open>The three cases on valid inputs: six \<^verbatim>\<open>often\<close> (bonus 0.1, \<open>0.39 + 0.1\<close>); seven
  \<^verbatim>\<open>rarely\<close> and three \<^verbatim>\<open>always\<close> (bonus 0.05, \<open>0.40375 + 0.05\<close>); four \<^verbatim>\<open>often\<close> and
  six \<^verbatim>\<open>never\<close> (no bonus, \<open>0.255\<close>).\<close>

theorem pattern_bonus_applied_once_witness:
  "valid_input \<lparr>age = 8, gender = M,
      responses = [often, often, often, often, often, often, never, never, never, never]\<rparr>
   \<and> highRiskResponses \<lparr>age = 8, gender = M,
      responses = [often, often, often, often, often, often, never, never, never, never]\<rparr> = 6
   \<and> lowEngagementResponses \<lparr>age = 8, gender = M,
      responses = [often, often, often, often, often, often, never, never, never, never]\<rparr> = 4
   \<and> riskPercentage (calculatePrediction \<lparr>age = 8, gender = M,
      responses = [often, often, often, often, often, often, never, never, never, never]\<rparr> ''2025-11-20T09:40:24.000Z'') = 49
   \<and> valid_input \<lparr>age = 8, gender = F,
      responses = [rarely, rarely, rarely, rarely, rarely, rarely, rarely, always, always, always]\<rparr>
   \<and> highRiskResponses \<lparr>age = 8, gender = F,
      responses = [rarely, rarely, rarely, rarely, rarely, rarely, rarely, always, always, always]\<rparr> = 3
   \<and> lowEngagementResponses \<lparr>age = 8, gender = F,
      responses = [rarely, rarely, rarely, rarely, rarely, rarely, rarely, always, always, always]\<rparr> = 7
   \<and> riskPercentage (calculatePrediction \<lparr>age = 8, gender = F,
      responses = [rarely, rarely, rarely, rarely, rarely, rarely, rarely, always, always, always]\<rparr> ''2025-11-20T09:40:24.000Z'') = 45.375
   \<and> valid_input \<lparr>age = 8, gender = F,
      responses = [often, often, often, often, never, never, never, never, never, never]\<rparr>
   \<and> highRiskResponses \<lparr>age = 8, gender = F,
      responses = [often, often, often, often, never, never, never, never, never, never]\<rparr> = 4
   \<and> lowEngagementResponses \<lparr>age = 8, gender = F,
      responses = [often, often, often, often, never, never, never, never, never, never]\<rparr> = 6
   \<and> riskPercentage (calculatePrediction \<lparr>age = 8, gender = F,
      responses = [often, often, often, often, never, never, never, never, never, never]\<rparr> ''2025-11-20T09:40:24.000Z'') = 25.5"
  using pattern_bonus_applied_once [of "\<lparr>age = 8, gender = M,
      responses = [often, often, often, often, often, often, never, never, never, never]\<rparr>" "''2025-11-20T09:40:24.000Z''"]
    pattern_bonus_applied_once [of "\<lparr>age = 8, gender = F,
      responses = [rarely, rarely, rarely, rarely, rarely, rarely, rarely, always, always, always]\<rparr>" "''2025-11-20T09:40:24.000Z''"]
    pattern_bonus_applied_once [of "\<lparr>age = 8, gender = F,
      responses = [often, often, often, often, never, never, never, never, never, never]\<rparr>" "''2025-11-20T09:40:24.000Z''"]
  by (simp add: valid_input_def)


subsection \<open>The per-question breakdown\<close>

lemma length_QUESTIONNAIRE_ITEMS: "length QUESTIONNAIRE_ITEMS = 10"
  by (simp add: QUESTIONNAIRE_ITEMS_def)

lemma nth_buildScoreBreakdown:
  "i < length rs \<Longrightarrow>
   buildScoreBreakdown rs ! i =
     \<lparr>question = array_get QUESTIONNAIRE_ITEMS (int i), response = rs ! i,
      score = responseToNumber (rs ! i)\<rparr>"
  by (simp add: buildScoreBreakdown_def nth_enumerate_eq)

text \<open>
  Claim C7. For every valid input the \<^verbatim>\<open>scoreBreakdown\<close> of the result has exactly 10
  entries; its i-th entry holds the i-th question of \<^verbatim>\<open>QUESTIONNAIRE_ITEMS\<close> and the
  i-th response of the input, and its score is the fixed mapping of that response.
\<close>

theorem scoreBreakdown_entries:
  assumes "valid_input formData"
  shows "length (scoreBreakdown (calculatePrediction formData now)) = 10
    \<and> (\<forall>i<10. scoreBreakdown (calculatePrediction formData now) ! i =
          \<lparr>question = Some (QUESTIONNAIRE_ITEMS ! i),
           response = responses formData ! i,
           score = responseToNumber (responses formData ! i)\<rparr>)
    \<and> map response (scoreBreakdown (calculatePrediction formData now)) = responses formData"
proof -
  have len: "length (responses formData) = 10"
    using assms by (simp add: valid_input_def)
  have l: "length (scoreBreakdown (calculatePrediction formData now)) = 10"
    by (simp add: calc_scoreBreakdown length_buildScoreBreakdown len)
  have n: "\<forall>i<10. scoreBreakdown (calculatePrediction formData now) ! i =
          \<lparr>question = Some (QUESTIONNAIRE_ITEMS ! i),
           response = responses formData ! i,
           score = responseToNumber (responses formData ! i)\<rparr>"
    by (simp add: calc_scoreBreakdown nth_buildScoreBreakdown len array_get_def
        length_QUESTIONNAIRE_ITEMS)
  have "map response (scoreBreakdown (calculatePrediction formData now)) = responses formData"
    by (rule nth_equalityI) (simp_all add: l len n)
  with l n show ?thesis by simp
qed

theorem scoreBreakdown_entries_witness:
  "valid_input \<lparr>age = 5, gender = F,
      responses = [never, rarely, sometimes, often, always, always, often, sometimes, rarely, never]\<rparr>
   \<and> length (scoreBreakdown (calculatePrediction \<lparr>age = 5, gender = F,
      responses = [never, rarely, sometimes, often, always, always, often, sometimes, rarely, never]\<rparr> ''2025-11-20T09:40:24.000Z'')) = 10
   \<and> scoreBreakdown (calculatePrediction \<lparr>age = 5, gender = F,
      responses = [never, rarely, sometimes, often, always, always, often, sometimes, rarely, never]\<rparr> ''2025-11-20T09:40:24.000Z'') ! 3 =
        \<lparr>question = Some ''Does your child understand and follow simple instructions?'',
         response = often, score = 3\<rparr>"
proof -
  have v: "valid_input \<lparr>age = 5, gender = F,
      responses = [never, rarely, sometimes, often, always, always, often, sometimes, rarely, never]\<rparr>"
    by (simp add: valid_input_def)
  from scoreBreakdown_entries [OF v, of "''2025-11-20T09:40:24.000Z''"] show ?thesis
    using v by (simp add: QUESTIONNAIRE_ITEMS_def)
qed


subsection \<open>The session history\<close>

text \<open>When the browser accepts the write, the stored list is the new session followed by
  the first nine of the prior sessions.\<close>

lemma saveSession_write_accepted:
  assumes "accepts_write ls"
  shows "getSessionHistory (saveSession session ls) = session # take 9 (getSessionHistory ls)
     \<and> history_item (saveSession session ls) = Some (session # take 9 (getSessionHistory ls))"
  using assms
  by (simp add: saveSession_def setItem_def getSessionHistory_def Let_def take_Cons'
      split: option.splits)

text \<open>When the browser rejects the write, the \<^verbatim>\<open>catch\<close> leaves the storage as it was.\<close>

lemma saveSession_write_rejected:
  "\<not> accepts_write ls \<Longrightarrow> saveSession session ls = ls"
  by (simp add: saveSession_def setItem_def Let_def)

text \<open>Accepted or rejected, a save never takes a history of at most 10 entries beyond 10.\<close>

lemma saveSession_preserves_cap:
  "length (getSessionHistory ls) \<le> 10 \<Longrightarrow>
   length (getSessionHistory (saveSession session ls)) \<le> 10"
  by (cases "accepts_write ls")
    (simp_all add: saveSession_def setItem_def getSessionHistory_def Let_def)

text \<open>
  Claim C8, as stated: for every prior history state and every new session,
  \<^verbatim>\<open>saveSession\<close> places the new session at the front. \<^verbatim>\<open>saveSession\<close> wraps its body in
  \<^verbatim>\<open>try\<close>; when \<^verbatim>\<open>localStorage.setItem\<close> throws (quota exceeded, storage disabled) the
  \<^verbatim>\<open>catch\<close> logs the error and returns. With ten sessions stored and the write rejected,
  the storage is what it was: the new session is not at the front, and is not stored at
  all. A stored list of eleven sessions likewise stays at eleven.
\<close>

theorem saveSession_rejected_write_drops_session:
  "getSessionHistory (saveSession \<lparr>session_id = ''session_11'', session_timestamp = ''2025-11-20T09:40:25.000Z'',
        session_age = 8, session_gender = M,
        session_result = calculatePrediction \<lparr>age = 8, gender = M,
      responses = [often, often, often, often, often, often, never, never, never, never]\<rparr> ''2025-11-20T09:40:25.000Z'',
        session_totalScore = 18\<rparr> \<lparr>history_item = Some (map (\<lambda>k. \<lparr>session_id = ''session_0'', session_timestamp = ''2025-11-20T09:40:24.000Z'',
        session_age = 8, session_gender = M,
        session_result = calculatePrediction \<lparr>age = 8, gender = M,
      responses = [often, often, often, often, often, often, never, never, never, never]\<rparr> ''2025-11-20T09:40:24.000Z'',
        session_totalScore = 18\<rparr>\<lparr>session_id := k\<rparr>)
        [''session_10'', ''session_9'', ''session_8'', ''session_7'', ''session_6'',
         ''session_5'', ''session_4'', ''session_3'', ''session_2'', ''session_1'']),
      accepts_write = False\<rparr>)
     = (map (\<lambda>k. \<lparr>session_id = ''session_0'', session_timestamp = ''2025-11-20T09:40:24.000Z'',
        session_age = 8, session_gender = M,
        session_result = calculatePrediction \<lparr>age = 8, gender = M,
      responses = [often, often, often, often, often, often, never, never, never, never]\<rparr> ''2025-11-20T09:40:24.000Z'',
        session_totalScore = 18\<rparr>\<lparr>session_id := k\<rparr>)
        [''session_10'', ''session_9'', ''session_8'', ''session_7'', ''session_6'',
         ''session_5'', ''session_4'', ''session_3'', ''session_2'', ''session_1''])
   \<and> hd (getSessionHistory (saveSession \<lparr>session_id = ''session_11'', session_timestamp = ''2025-11-20T09:40:25.000Z'',
        session_age = 8, session_gender = M,
        session_result = calculatePrediction \<lparr>age = 8, gender = M,
      responses = [often, often, often, often, often, often, never, never, never, never]\<rparr> ''2025-11-20T09:40:25.000Z'',
        session_totalScore = 18\<rparr> \<lparr>history_item = Some (map (\<lambda>k. \<lparr>session_id = ''session_0'', session_timestamp = ''2025-11-20T09:40:24.000Z'',
        session_age = 8, session_gender = M,
        session_result = calculatePrediction \<lparr>age = 8, gender = M,
      responses = [often, often, often, often, often, often, never, never, never, never]\<rparr> ''2025-11-20T09:40:24.000Z'',
        session_totalScore = 18\<rparr>\<lparr>session_id := k\<rparr>)
        [''session_10'', ''session_9'', ''session_8'', ''session_7'', ''session_6'',
         ''session_5'', ''session_4'', ''session_3'', ''session_2'', ''session_1'']),
      accepts_write = False\<rparr>))
     \<noteq> \<lparr>session_id = ''session_11'', session_timestamp = ''2025-11-20T09:40:25.000Z'',
        session_age = 8, session_gender = M,
        session_result = calculatePrediction \<lparr>age = 8, gender = M,
      responses = [often, often, often, often, often, often, never, never, never, never]\<rparr> ''2025-11-20T09:40:25.000Z'',
        session_totalScore = 18\<rparr>
   \<and> \<lparr>session_id = ''session_11'', session_timestamp = ''2025-11-20T09:40:25.000Z'',
        session_age = 8, session_gender = M,
        session_result = calculatePrediction \<lparr>age = 8, gender = M,
      responses = [often, often, often, often, often, often, never, never, never, never]\<rparr> ''2025-11-20T09:40:25.000Z'',
        session_totalScore = 18\<rparr>
     \<notin> set (getSessionHistory (saveSession \<lparr>session_id = ''session_11'', session_timestamp = ''2025-11-20T09:40:25.000Z'',
        session_age = 8, session_gender = M,
        session_result = calculatePrediction \<lparr>age = 8, gender = M,
      responses = [often, often, often, often, often, often, never, never, never, never]\<rparr> ''2025-11-20T09:40:25.000Z'',
        session_totalScore = 18\<rparr> \<lparr>history_item = Some (map (\<lambda>k. \<lparr>session_id = ''session_0'', session_timestamp = ''2025-11-20T09:40:24.000Z'',
        session_age = 8, session_gender = M,
        session_result = calculatePrediction \<lparr>age = 8, gender = M,
      responses = [often, often, often, often, often, often, never, never, never, never]\<rparr> ''2025-11-20T09:40:24.000Z'',
        session_totalScore = 18\<rparr>\<lparr>session_id := k\<rparr>)
        [''session_10'', ''session_9'', ''session_8'', ''session_7'', ''session_6'',
         ''session_5'', ''session_4'', ''session_3'', ''session_2'', ''session_1'']),
      accepts_write = False\<rparr>))
   \<and> length (getSessionHistory (saveSession \<lparr>session_id = ''session_11'', session_timestamp = ''2025-11-20T09:40:25.000Z'',
        session_age = 8, session_gender = M,
        session_result = calculatePrediction \<lparr>age = 8, gender = M,
      responses = [often, often, often, often, often, often, never, never, never, never]\<rparr> ''2025-11-20T09:40:25.000Z'',
        session_totalScore = 18\<rparr> \<lparr>history_item = Some (map (\<lambda>k. \<lparr>session_id = ''session_0'', session_timestamp = ''2025-11-20T09:40:24.000Z'',
        session_age = 8, session_gender = M,
        session_result = calculatePrediction \<lparr>age = 8, gender = M,
      responses = [often, often, often, often, often, often, never, never, never, never]\<rparr> ''2025-11-20T09:40:24.000Z'',
        session_totalScore = 18\<rparr>\<lparr>session_id := k\<rparr>)
        [''session_10'', ''session_9'', ''session_8'', ''session_7'', ''session_6'',
         ''session_5'', ''session_4'', ''session_3'', ''session_2'', ''session_1'',
         ''session_0'']),
      accepts_write = False\<rparr>))
     = 11"
  by (simp add: saveSession_def setItem_def getSessionHistory_def Let_def)

text \<open>
  Claim C8, amended. The stored history is most-recent-first and capped at 10 whenever
  the browser accepts the write: for every prior history and every new session,
  \<^verbatim>\<open>saveSession\<close> then stores the new session at the front, followed by the first nine
  of the prior sessions in their order, so the older sessions that survive keep their
  relative order, the oldest are the ones evicted, and the stored list has at most 10
  entries. When the browser rejects the write, the storage is left as it was and the
  new session is not stored. In both cases a history of at most 10 entries stays at
  most 10.
\<close>

theorem saveSession_front_and_cap:
  "(accepts_write ls \<longrightarrow>
      getSessionHistory (saveSession session ls) = session # take 9 (getSessionHistory ls)
      \<and> history_item (saveSession session ls) = Some (session # take 9 (getSessionHistory ls))
      \<and> length (getSessionHistory (saveSession session ls)) \<le> 10
      \<and> length (getSessionHistory (saveSession session ls))
          = min 10 (Suc (length (getSessionHistory ls))))
   \<and> (\<not> accepts_write ls \<longrightarrow> saveSession session ls = ls)
   \<and> (length (getSessionHistory ls) \<le> 10 \<longrightarrow>
        length (getSessionHistory (saveSession session ls)) \<le> 10)"
proof -
  have acc: "getSessionHistory (saveSession session ls) = session # take 9 (getSessionHistory ls)
      \<and> history_item (saveSession session ls) = Some (session # take 9 (getSessionHistory ls))
      \<and> length (getSessionHistory (saveSession session ls)) \<le> 10
      \<and> length (getSessionHistory (saveSession session ls))
          = min 10 (Suc (length (getSessionHistory ls)))"
    if "accepts_write ls"
    using saveSession_write_accepted [OF that, of session] by simp
  from acc saveSession_write_rejected [of ls session] saveSession_preserves_cap [of ls session]
  show ?thesis by blast
qed

theorem saveSession_front_and_cap_witness:
  "accepts_write \<lparr>history_item = Some (map (\<lambda>k. \<lparr>session_id = ''session_0'', session_timestamp = ''2025-11-20T09:40:24.000Z'',
        session_age = 8, session_gender = M,
        session_result = calculatePrediction \<lparr>age = 8, gender = M,
      responses = [often, often, often, often, often, often, never, never, never, never]\<rparr> ''2025-11-20T09:40:24.000Z'',
        session_totalScore = 18\<rparr>\<lparr>session_id := k\<rparr>)
        [''session_10'', ''session_9'', ''session_8'', ''session_7'', ''session_6'',
         ''session_5'', ''session_4'', ''session_3'', ''session_2'', ''session_1'']),
      accepts_write = True\<rparr>
   \<and> getSessionHistory (saveSession \<lparr>session_id = ''session_11'', session_timestamp = ''2025-11-20T09:40:25.000Z'',
        session_age = 8, session_gender = M,
        session_result = calculatePrediction \<lparr>age = 8, gender = M,
      responses = [often, often, often, often, often, often, never, never, never, never]\<rparr> ''2025-11-20T09:40:25.000Z'',
        session_totalScore = 18\<rparr> \<lparr>history_item = Some (map (\<lambda>k. \<lparr>session_id = ''session_0'', session_timestamp = ''2025-11-20T09:40:24.000Z'',
        session_age = 8, session_gender = M,
        session_result = calculatePrediction \<lparr>age = 8, gender = M,
      responses = [often, often, often, often, often, often, never, never, never, never]\<rparr> ''2025-11-20T09:40:24.000Z'',
        session_totalScore = 18\<rparr>\<lparr>session_id := k\<rparr>)
        [''session_10'', ''session_9'', ''session_8'', ''session_7'', ''session_6'',
         ''session_5'', ''session_4'', ''session_3'', ''session_2'', ''session_1'']),
      accepts_write = True\<rparr>)
     = \<lparr>session_id = ''session_11'', session_timestamp = ''2025-11-20T09:40:25.000Z'',
        session_age = 8, session_gender = M,
        session_result = calculatePrediction \<lparr>age = 8, gender = M,
      responses = [often, often, often, often, often, often, never, never, never, never]\<rparr> ''2025-11-20T09:40:25.000Z'',
        session_totalScore = 18\<rparr> # map (\<lambda>k. \<lparr>session_id = ''session_0'', session_timestamp = ''2025-11-20T09:40:24.000Z'',
        session_age = 8, session_gender = M,
        session_result = calculatePrediction \<lparr>age = 8, gender = M,
      responses = [often, often, often, often, often, often, never, never, never, never]\<rparr> ''2025-11-20T09:40:24.000Z'',
        session_totalScore = 18\<rparr>\<lparr>session_id := k\<rparr>)
        [''session_10'', ''session_9'', ''session_8'', ''session_7'', ''session_6'',
         ''session_5'', ''session_4'', ''session_3'', ''session_2'']
   \<and> \<not> accepts_write \<lparr>history_item = Some (map (\<lambda>k. \<lparr>session_id = ''session_0'', session_timestamp = ''2025-11-20T09:40:24.000Z'',
        session_age = 8, session_gender = M,
        session_result = calculatePrediction \<lparr>age = 8, gender = M,
      responses = [often, often, often, often, often, often, never, never, never, never]\<rparr> ''2025-11-20T09:40:24.000Z'',
        session_totalScore = 18\<rparr>\<lparr>session_id := k\<rparr>)
        [''session_10'', ''session_9'', ''session_8'', ''session_7'', ''session_6'',
         ''session_5'', ''session_4'', ''session_3'', ''session_2'', ''session_1'']),
      accepts_write = False\<rparr>
   \<and> saveSession \<lparr>session_id = ''session_11'', session_timestamp = ''2025-11-20T09:40:25.000Z'',
        session_age = 8, session_gender = M,
        session_result = calculatePrediction \<lparr>age = 8, gender = M,
      responses = [often, often, often, often, often, often, never, never, never, never]\<rparr> ''2025-11-20T09:40:25.000Z'',
        session_totalScore = 18\<rparr> \<lparr>history_item = Some (map (\<lambda>k. \<lparr>session_id = ''session_0'', session_timestamp = ''2025-11-20T09:40:24.000Z'',
        session_age = 8, session_gender = M,
        session_result = calculatePrediction \<lparr>age = 8, gender = M,
      responses = [often, often, often, often, often, often, never, never, never, never]\<rparr> ''2025-11-20T09:40:24.000Z'',
        session_totalScore = 18\<rparr>\<lparr>session_id := k\<rparr>)
        [''session_10'', ''session_9'', ''session_8'', ''session_7'', ''session_6'',
         ''session_5'', ''session_4'', ''session_3'', ''session_2'', ''session_1'']),
      accepts_write = False\<rparr>
     = \<lparr>history_item = Some (map (\<lambda>k. \<lparr>session_id = ''session_0'', session_timestamp = ''2025-11-20T09:40:24.000Z'',
        session_age = 8, session_gender = M,
        session_result = calculatePrediction \<lparr>age = 8, gender = M,
      responses = [often, often, often, often, often, often, never, never, never, never]\<rparr> ''2025-11-20T09:40:24.000Z'',
        session_totalScore = 18\<rparr>\<lparr>session_id := k\<rparr>)
        [''session_10'', ''session_9'', ''session_8'', ''session_7'', ''session_6'',
         ''session_5'', ''session_4'', ''session_3'', ''session_2'', ''session_1'']),
      accepts_write = False\<rparr>
   \<and> length (getSessionHistory \<lparr>history_item = Some (map (\<lambda>k. \<lparr>session_id = ''session_0'', session_timestamp = ''2025-11-20T09:40:24.000Z'',
        session_age = 8, session_gender = M,
        session_result = calculatePrediction \<lparr>age = 8, gender = M,
      responses = [often, often, often, often, often, often, never, never, never, never]\<rparr> ''2025-11-20T09:40:24.000Z'',
        session_totalScore = 18\<rparr>\<lparr>session_id := k\<rparr>)
        [''session_10'', ''session_9'', ''session_8'', ''session_7'', ''session_6'',
         ''session_5'', ''session_4'', ''session_3'', ''session_2'', ''session_1'']),
      accepts_write = True\<rparr>) \<le> 10
   \<and> length (getSessionHistory (saveSession \<lparr>session_id = ''session_11'', session_timestamp = ''2025-11-20T09:40:25.000Z'',
        session_age = 8, session_gender = M,
        session_result = calculatePrediction \<lparr>age = 8, gender = M,
      responses = [often, often, often, often, often, often, never, never, never, never]\<rparr> ''2025-11-20T09:40:25.000Z'',
        session_totalScore = 18\<rparr> \<lparr>history_item = Some (map (\<lambda>k. \<lparr>session_id = ''session_0'', session_timestamp = ''2025-11-20T09:40:24.000Z'',
        session_age = 8, session_gender = M,
        session_result = calculatePrediction \<lparr>age = 8, gender = M,
      responses = [often, often, often, often, often, often, never, never, never, never]\<rparr> ''2025-11-20T09:40:24.000Z'',
        session_totalScore = 18\<rparr>\<lparr>session_id := k\<rparr>)
        [''session_10'', ''session_9'', ''session_8'', ''session_7'', ''session_6'',
         ''session_5'', ''session_4'', ''session_3'', ''session_2'', ''session_1'']),
      accepts_write = True\<rparr>)) = 10"
  using saveSession_front_and_cap [of "\<lparr>history_item = Some (map (\<lambda>k. \<lparr>session_id = ''session_0'', session_timestamp = ''2025-11-20T09:40:24.000Z'',
        session_age = 8, session_gender = M,
        session_result = calculatePrediction \<lparr>age = 8, gender = M,
      responses = [often, often, often, often, often, often, never, never, never, never]\<rparr> ''2025-11-20T09:40:24.000Z'',
        session_totalScore = 18\<rparr>\<lparr>session_id := k\<rparr>)
        [''session_10'', ''session_9'', ''session_8'', ''session_7'', ''session_6'',
         ''session_5'', ''session_4'', ''session_3'', ''session_2'', ''session_1'']),
      accepts_write = True\<rparr>" "\<lparr>session_id = ''session_11'', session_timestamp = ''2025-11-20T09:40:25.000Z'',
        session_age = 8, session_gender = M,
        session_result = calculatePrediction \<lparr>age = 8, gender = M,
      responses = [often, often, often, often, often, often, never, never, never, never]\<rparr> ''2025-11-20T09:40:25.000Z'',
        session_totalScore = 18\<rparr>"]
    saveSession_front_and_cap [of "\<lparr>history_item = Some (map (\<lambda>k. \<lparr>session_id = ''session_0'', session_timestamp = ''2025-11-20T09:40:24.000Z'',
        session_age = 8, session_gender = M,
        session_result = calculatePrediction \<lparr>age = 8, gender = M,
      responses = [often, often, often, often, often, often, never, never, never, never]\<rparr> ''2025-11-20T09:40:24.000Z'',
        session_totalScore = 18\<rparr>\<lparr>session_id := k\<rparr>)
        [''session_10'', ''session_9'', ''session_8'', ''session_7'', ''session_6'',
         ''session_5'', ''session_4'', ''session_3'', ''session_2'', ''session_1'']),
      accepts_write = False\<rparr>" "\<lparr>session_id = ''session_11'', session_timestamp = ''2025-11-20T09:40:25.000Z'',
        session_age = 8, session_gender = M,
        session_result = calculatePrediction \<lparr>age = 8, gender = M,
      responses = [often, often, often, often, often, often, never, never, never, never]\<rparr> ''2025-11-20T09:40:25.000Z'',
        session_totalScore = 18\<rparr>"]
  by (simp add: getSessionHistory_def)


subsection \<open>The response mappings\<close>

text \<open>
  Claim C9. The mappings round-trip: \<^verbatim>\<open>numberToResponse(responseToNumber(r))\<close> is \<open>r\<close> for
  each of the five categories. \<^verbatim>\<open>numberToResponse\<close> is total on real numbers: the rounded
  argument is clamped into 0..4, so the array read never leaves the array and the result
  is always one of the five categories.
\<close>

theorem numberToResponse_roundtrip_total:
  "numberToResponse (real_of_int (responseToNumber r)) = Some r
   \<and> numberToResponse num \<noteq> None
   \<and> numberToResponse num
       = Some ([never, rarely, sometimes, often, always]
                 ! nat (max 0 (min 4 (Math_round num))))
   \<and> 0 \<le> max 0 (min 4 (Math_round num)) \<and> max 0 (min 4 (Math_round num)) \<le> 4"
  by (cases r) (simp_all add: numberToResponse_def array_get_def Math_round_def)


subsection \<open>The earlier scoring function\<close>

text \<open>The earlier copy does not keep the confidence within 0.6 and 0.95: ten \<^verbatim>\<open>always\<close>
  for a boy of 5 give \<open>0.1 + 0.8 + 0.2\<close>, clamped to 1, and confidence 1; ten
  \<^verbatim>\<open>sometimes\<close> give \<open>0.1 + 0.4 = 0.5\<close> and confidence 0.5.\<close>

lemma riskScore_earlier_all_always:
  "riskScore_earlier \<lparr>age = 5, gender = M,
      responses = [always, always, always, always, always, always, always, always, always, always]\<rparr> = 1"
  by (simp add: riskScore_earlier_def totalScore_def highRiskResponses_def
      lowEngagementResponses_def Let_def)

lemma calculatePrediction_earlier_all_always:
  "fst (calculatePrediction_earlier \<lparr>age = 5, gender = M,
      responses = [always, always, always, always, always, always, always, always, always, always]\<rparr>) = 1
   \<and> fst (snd (calculatePrediction_earlier \<lparr>age = 5, gender = M,
      responses = [always, always, always, always, always, always, always, always, always, always]\<rparr>)) = 1
   \<and> fst (snd (snd (calculatePrediction_earlier \<lparr>age = 5, gender = M,
      responses = [always, always, always, always, always, always, always, always, always, always]\<rparr>))) = High"
  by (simp add: calculatePrediction_earlier_def riskScore_earlier_all_always Let_def)

lemma riskScore_earlier_all_sometimes:
  "riskScore_earlier \<lparr>age = 5, gender = M,
      responses = [sometimes, sometimes, sometimes, sometimes, sometimes, sometimes, sometimes, sometimes, sometimes, sometimes]\<rparr> = 0.5"
  by (simp add: riskScore_earlier_def totalScore_def highRiskResponses_def
      lowEngagementResponses_def Let_def)

lemma calculatePrediction_earlier_all_sometimes:
  "fst (calculatePrediction_earlier \<lparr>age = 5, gender = M,
      responses = [sometimes, sometimes, sometimes, sometimes, sometimes, sometimes, sometimes, sometimes, sometimes, sometimes]\<rparr>) = 0
   \<and> fst (snd (calculatePrediction_earlier \<lparr>age = 5, gender = M,
      responses = [sometimes, sometimes, sometimes, sometimes, sometimes, sometimes, sometimes, sometimes, sometimes, sometimes]\<rparr>)) = 0.5
   \<and> fst (snd (snd (calculatePrediction_earlier \<lparr>age = 5, gender = M,
      responses = [sometimes, sometimes, sometimes, sometimes, sometimes, sometimes, sometimes, sometimes, sometimes, sometimes]\<rparr>))) = Medium"
  by (simp add: calculatePrediction_earlier_def riskScore_earlier_all_sometimes Let_def)

end
